theory Spec2Isabelle
  imports Main
begin

section \<open>Process model\<close>

text \<open>
  \<^verbatim>\<open>verify_pr_lables.py\<close> is a straight-line script. A run is modelled by the
  trace of what it does that can be seen from outside (lines written to standard output,
  lines written to the error stream, requests sent to the GitHub API, in the order they
  happen) together with the way it ends: \<open>sys.exit(n)\<close>, an exception nobody catches, or
  the end of the script.

  Strings are lists of \<^typ>\<open>char\<close>, each standing for one code point below 256. Integers
  are unbounded, as Python's are; the digit-count limit that recent interpreters put on
  \<open>int(str)\<close> is not part of the model. The imports of lines 3 to 7 are taken to
  succeed.
\<close>

datatype exn = AttributeError | ValueError | IndexError | GithubException

datatype outcome = Exit int | Uncaught exn

text \<open>
  A printed line is the sequence of the pieces of its (f-)string: literal text, a
  formatted string, a formatted integer, a formatted list of strings.
\<close>

datatype piece = Lit string | Fmt string | FmtInt int | FmtList "string list"

datatype api_call = GetRepo string string | GetPull int | GetLabels

datatype event = Out "piece list" | Err "piece list" | Call api_call

type_synonym 'a res = "event list \<times> (outcome + 'a)"

definition ret :: "'a \<Rightarrow> 'a res" where
  "ret x = ([], Inr x)"

definition and_then :: "'a res \<Rightarrow> ('a \<Rightarrow> 'b res) \<Rightarrow> 'b res" where
  "and_then m f =
     (case m of
        (tr, Inl out) \<Rightarrow> (tr, Inl out)
      | (tr, Inr x) \<Rightarrow> (case f x of (tr', r) \<Rightarrow> (tr @ tr', r)))"

definition print :: "piece list \<Rightarrow> unit res" where
  "print ps = ([Out ps], Inr ())"

definition eprint :: "piece list \<Rightarrow> unit res" where
  "eprint ps = ([Err ps], Inr ())"

definition call :: "api_call \<Rightarrow> unit res" where
  "call c = ([Call c], Inr ())"

definition sys_exit :: "int \<Rightarrow> 'a res" where
  "sys_exit n = ([], Inl (Exit n))"

definition raise :: "exn \<Rightarrow> 'a res" where
  "raise e = ([], Inl (Uncaught e))"

text \<open>
  The status the operating system sees: the argument of \<open>sys.exit\<close>; 1 after an
  uncaught exception (the interpreter prints the traceback and exits with 1); 0 when the
  script runs off its end.
\<close>

fun exit_status :: "outcome + unit \<Rightarrow> int" where
  "exit_status (Inl (Exit n)) = n"
| "exit_status (Inl (Uncaught e)) = 1"
| "exit_status (Inr u) = 0"

section \<open>String built-ins\<close>

text \<open>\<open>str.isspace\<close> on the code points below 256.\<close>

definition is_space :: "char \<Rightarrow> bool" where
  "is_space c =
     (let n = (of_char c :: nat)
      in (9 \<le> n \<and> n \<le> 13) \<or> (28 \<le> n \<and> n \<le> 32) \<or> n = 133 \<or> n = 160)"

text \<open>\<open>s.strip()\<close>\<close>

definition strip :: "string \<Rightarrow> string" where
  "strip s = rev (dropWhile is_space (rev (dropWhile is_space s)))"

text \<open>\<open>s.split(sep)\<close> for a separator of one character: empty fields are kept.\<close>

fun split_on :: "char \<Rightarrow> string \<Rightarrow> string list" where
  "split_on sep [] = [[]]"
| "split_on sep (c # cs) =
     (if c = sep then [] # split_on sep cs
      else (case split_on sep cs of
              [] \<Rightarrow> [[c]]
            | w # ws \<Rightarrow> (c # w) # ws))"

text \<open>\<open>s.split()\<close>: the maximal runs of characters that are not whitespace.\<close>

fun split_ws :: "string \<Rightarrow> string list" where
  "split_ws [] = []"
| "split_ws (c # cs) =
     (if is_space c then split_ws cs
      else (case cs of
              [] \<Rightarrow> [[c]]
            | d # ds \<Rightarrow>
                if is_space d then [c] # split_ws cs
                else (case split_ws cs of
                        [] \<Rightarrow> [[c]]
                      | w # ws \<Rightarrow> (c # w) # ws)))"

text \<open>
  \<open>s.lower()\<close>: the upper-case letters below 256 are A to Z and the code points 192 to
  222 except 215; the lower-case letter is 32 further, that is, with bit 5 set.
\<close>

definition lower_char :: "char \<Rightarrow> char" where
  "lower_char c =
     (let n = (of_char c :: nat)
      in if (65 \<le> n \<and> n \<le> 90) \<or> (192 \<le> n \<and> n \<le> 222 \<and> n \<noteq> 215)
         then Char (digit0 c) (digit1 c) (digit2 c) (digit3 c) (digit4 c) True
                   (digit6 c) (digit7 c)
         else c)"

definition lower :: "string \<Rightarrow> string" where
  "lower s = map lower_char s"

text \<open>\<open>s.startswith(p)\<close> and \<open>needle in hay\<close>.\<close>

fun starts_with :: "string \<Rightarrow> string \<Rightarrow> bool" where
  "starts_with s [] = True"
| "starts_with [] (p # ps) = False"
| "starts_with (c # cs) (p # ps) = (c = p \<and> starts_with cs ps)"

fun contains :: "string \<Rightarrow> string \<Rightarrow> bool" where
  "contains [] needle = (needle = [])"
| "contains (c # cs) needle = (starts_with (c # cs) needle \<or> contains cs needle)"

section \<open>\<open>int(str)\<close>\<close>

definition is_digit :: "char \<Rightarrow> bool" where
  "is_digit c = (let n = (of_char c :: nat) in 48 \<le> n \<and> n \<le> 57)"

definition digit_val :: "char \<Rightarrow> nat" where
  "digit_val c = of_char c - 48"

text \<open>
  The whitespace \<open>int\<close> skips at both ends: the ASCII characters tab to carriage return
  and space, and the two code points between 128 and 255 that are Unicode whitespace
  (they are turned into spaces before parsing).
\<close>

definition int_space :: "char \<Rightarrow> bool" where
  "int_space c =
     (let n = (of_char c :: nat)
      in (9 \<le> n \<and> n \<le> 13) \<or> n = 32 \<or> n = 133 \<or> n = 160)"

text \<open>
  After a first digit: further digits, each possibly preceded by one underscore. Returns
  the value read and what is left.
\<close>

fun scan_digits :: "nat \<Rightarrow> string \<Rightarrow> nat \<times> string" where
  "scan_digits acc [] = (acc, [])"
| "scan_digits acc [c] =
     (if is_digit c then (acc * 10 + digit_val c, []) else (acc, [c]))"
| "scan_digits acc (c # d # r) =
     (if is_digit c then scan_digits (acc * 10 + digit_val c) (d # r)
      else if c = CHR ''_'' \<and> is_digit d then scan_digits (acc * 10 + digit_val d) r
      else (acc, c # d # r))"

text \<open>\<open>int(s)\<close>: \<open>None\<close> stands for \<open>ValueError\<close>.\<close>

definition py_int :: "string \<Rightarrow> int option" where
  "py_int s =
     (let t = dropWhile int_space s;
          neg = (t \<noteq> [] \<and> hd t = CHR ''-'');
          u = (if t \<noteq> [] \<and> (hd t = CHR ''-'' \<or> hd t = CHR ''+'') then tl t else t)
      in case u of
           [] \<Rightarrow> None
         | d # r \<Rightarrow>
             if is_digit d
             then (case scan_digits (digit_val d) r of
                     (n, rest) \<Rightarrow>
                       if list_all int_space rest
                       then Some (if neg then - int n else int n)
                       else None)
             else None)"

section \<open>\<open>re.search('refs/pull/([0-9]+)/merge', s)\<close>\<close>

text \<open>The characters left after the prefix \<open>p\<close> of \<open>s\<close>, if \<open>s\<close> starts with \<open>p\<close>.\<close>

fun after_prefix :: "string \<Rightarrow> string \<Rightarrow> string option" where
  "after_prefix [] s = Some s"
| "after_prefix (p # ps) [] = None"
| "after_prefix (p # ps) (c # cs) = (if p = c then after_prefix ps cs else None)"

text \<open>
  A match starting at the first character of \<open>s\<close>; the result is group 1. The digits
  are matched greedily, and a shorter run cannot be followed by \<open>/\<close>, so only the maximal
  run of digits can match.
\<close>

definition match_here :: "string \<Rightarrow> string option" where
  "match_here s =
     (case after_prefix ''refs/pull/'' s of
        None \<Rightarrow> None
      | Some r \<Rightarrow>
          if takeWhile is_digit r \<noteq> [] \<and> starts_with (dropWhile is_digit r) ''/merge''
          then Some (takeWhile is_digit r)
          else None)"

text \<open>The leftmost match.\<close>

fun re_search :: "string \<Rightarrow> string option" where
  "re_search [] = match_here []"
| "re_search (c # cs) =
     (case match_here (c # cs) of
        Some g \<Rightarrow> Some g
      | None \<Rightarrow> re_search cs)"

text \<open>\<open>int\<close> of a string of digits.\<close>

definition digits_value :: "string \<Rightarrow> int" where
  "digits_value ds = int (foldl (\<lambda>acc c. acc * 10 + digit_val c) 0 ds)"

section \<open>The GitHub API, as far as the script uses it\<close>

text \<open>
  What the API answers is an input of a run. A pull request gives the full names of its
  head and base repositories (\<open>None\<close> when the API has no such repository, as for a
  deleted fork) and the names of its labels in the order the API lists them; a request
  that fails raises an exception of the client library, written \<open>None\<close> here.
\<close>

record pull =
  head_full_name :: "string option"
  base_full_name :: "string option"
  label_names :: "string list option"

type_synonym repository = "int \<Rightarrow> pull option"

type_synonym github = "string \<Rightarrow> string \<Rightarrow> repository option"

text \<open>
  The values the loop variable \<open>label\<close> takes: a \<open>Label\<close> object of the client library,
  or a plain \<open>str\<close>. Only the first has the attribute \<open>name\<close>, only the second the
  method \<open>split\<close>.
\<close>

datatype pyobj = Label string | Str string

fun attr_name :: "pyobj \<Rightarrow> string res" where
  "attr_name (Label n) = ret n"
| "attr_name (Str s) = raise AttributeError"

fun meth_split :: "pyobj \<Rightarrow> string list res" where
  "meth_split (Str s) = ret (split_ws s)"
| "meth_split (Label n) = raise AttributeError"

text \<open>\<open>x.full_name\<close> where \<open>x\<close> may be \<open>None\<close>.\<close>

fun attr_full_name :: "string option \<Rightarrow> string res" where
  "attr_full_name (Some n) = ret n"
| "attr_full_name None = raise AttributeError"

text \<open>\<open>xs[-1]\<close>\<close>

fun last_item :: "'a list \<Rightarrow> 'a res" where
  "last_item [] = raise IndexError"
| "last_item (x # xs) = ret (last (x # xs))"

section \<open>The script\<close>

text \<open>Lines 10 to 39.\<close>

definition get_env_var :: "string \<Rightarrow> bool \<Rightarrow> (string \<rightharpoonup> string) \<Rightarrow> string res" where
  "get_env_var env_var_name echo_value environ =
     (case environ env_var_name of
        None \<Rightarrow>
          and_then (eprint [Lit ''ERROR: The environmental variable '', Fmt env_var_name,
                            Lit '' is empty!'']) (\<lambda>_.
          sys_exit 1)
      | Some v \<Rightarrow>
          and_then (if echo_value then print [Fmt env_var_name, Lit '' = '', Fmt v]
                    else ret ()) (\<lambda>_.
          ret v))"

text \<open>What lines 42 to 67 read from the command line and the environment.\<close>

record config =
  token :: string
  valid_labels :: "string list"
  invalid_labels :: "string list"
  pr_number_str :: string
  repo_name :: string
  github_ref :: string
  github_event_name :: string

text \<open>Lines 42 to 67, given the arguments 1 to 4 once the count has been checked.\<close>

definition read_inputs ::
  "string \<Rightarrow> string \<Rightarrow> string \<Rightarrow> string \<Rightarrow> (string \<rightharpoonup> string) \<Rightarrow> config res" where
  "read_inputs a1 a2 a3 a4 environ =
     (if a1 = [] then
        and_then (eprint [Lit ''ERROR: A token must be provided!'']) (\<lambda>_.
        sys_exit 1)
      else
        and_then (print [Lit ''Valid labels are: '',
                         FmtList (map strip (split_on CHR '','' a2))]) (\<lambda>_.
        and_then (print [Lit ''Invalid labels are: '',
                         FmtList (map strip (split_on CHR '','' a3))]) (\<lambda>_.
        and_then (get_env_var ''GITHUB_REPOSITORY'' False environ) (\<lambda>rn.
        and_then (get_env_var ''GITHUB_REF'' False environ) (\<lambda>gr.
        and_then (get_env_var ''GITHUB_EVENT_NAME'' False environ) (\<lambda>en.
        ret \<lparr>token = a1,
             valid_labels = map strip (split_on CHR '','' a2),
             invalid_labels = map strip (split_on CHR '','' a3),
             pr_number_str = a4,
             repo_name = rn, github_ref = gr, github_event_name = en\<rparr>))))))"

definition startup :: "string list \<Rightarrow> (string \<rightharpoonup> string) \<Rightarrow> config res" where
  "startup argv environ =
     (if length argv \<noteq> 6 then
        and_then (eprint [Lit ''ERROR: Invalid number of arguments!'']) (\<lambda>_.
        sys_exit 1)
      else read_inputs (argv ! 1) (argv ! 2) (argv ! 3) (argv ! 4) environ)"

text \<open>
  Lines 76 to 94. The message of line 81 is not an f-string: the braces are printed as
  they are. In the second branch \<open>re.search\<close> returns \<open>None\<close> when nothing matches,
  and \<open>.group\<close> on it raises the \<open>AttributeError\<close> that the handler catches; a
  \<open>ValueError\<close> of \<open>int\<close> would not be caught there.
\<close>

definition resolve_pr_number :: "string \<Rightarrow> string \<Rightarrow> string \<Rightarrow> int res" where
  \<open>resolve_pr_number event_name number_str ref =
     (if event_name = ''pull_request_target'' then
        (case py_int number_str of
           Some n \<Rightarrow> ret n
         | None \<Rightarrow>
             and_then (eprint [Lit ''ERROR: A valid pull request number input must be defined when '',
                               Lit ''triggering on "pull_request_target". The pull request number '',
                               Lit ''passed was "{pr_number_str}".'']) (\<lambda>_.
             sys_exit 1))
      else
        (case re_search ref of
           Some g \<Rightarrow>
             (case py_int g of
                Some n \<Rightarrow> ret n
              | None \<Rightarrow> raise ValueError)
         | None \<Rightarrow>
             and_then (eprint [Lit ''ERROR: The pull request number could not be extracted from '',
                               Lit ''GITHUB_REF = "'', Fmt ref, Lit ''"'']) (\<lambda>_.
             sys_exit 1)))\<close>

text \<open>Lines 70 and 99: the two requests that fetch an object.\<close>

definition get_repo :: "github \<Rightarrow> string \<Rightarrow> string \<Rightarrow> repository res" where
  "get_repo gh tok name =
     and_then (call (GetRepo tok name)) (\<lambda>_.
     case gh tok name of
       None \<Rightarrow> raise GithubException
     | Some repo \<Rightarrow> ret repo)"

definition get_pull :: "repository \<Rightarrow> int \<Rightarrow> pull res" where
  "get_pull repo n =
     and_then (call (GetPull n)) (\<lambda>_.
     case repo n of
       None \<Rightarrow> raise GithubException
     | Some pr \<Rightarrow> ret pr)"

text \<open>Lines 101 to 107.\<close>

definition fork_check :: "pull \<Rightarrow> string \<Rightarrow> unit res" where
  \<open>fork_check pr event_name =
     and_then (attr_full_name (head_full_name pr)) (\<lambda>h.
     and_then (attr_full_name (base_full_name pr)) (\<lambda>b.
     if h \<noteq> b then
       (if event_name \<noteq> ''pull_request_target'' then
          and_then (eprint [Lit ''ERROR: PRs from forks are only supported when trigger on '',
                            Lit ''"pull_request_target"'']) (\<lambda>_.
          sys_exit 1)
        else ret ())
     else ret ()))\<close>

text \<open>Lines 69 to 107: from the repository lookup to the fork check.\<close>

definition locate :: "config \<Rightarrow> github \<Rightarrow> pull res" where
  "locate cfg gh =
     and_then (get_repo gh (token cfg) (repo_name cfg)) (\<lambda>repo.
     and_then (resolve_pr_number (github_event_name cfg) (pr_number_str cfg)
                 (github_ref cfg)) (\<lambda>pr_number.
     and_then (print [Lit ''Pull request number: '', FmtInt pr_number]) (\<lambda>_.
     and_then (get_pull repo pr_number) (\<lambda>pr.
     and_then (fork_check pr (github_event_name cfg)) (\<lambda>_.
     ret pr)))))"

text \<open>
  Lines 110 and 120: the labels of the pull request are requested when the loop starts
  to iterate.
\<close>

definition get_labels :: "pull \<Rightarrow> pyobj list res" where
  "get_labels pr =
     and_then (call GetLabels) (\<lambda>_.
     case label_names pr of
       None \<Rightarrow> raise GithubException
     | Some names \<Rightarrow> ret (map Label names))"

text \<open>
  Lines 113 to 124. The two lists collect \<open>label.name\<close>, a \<open>str\<close>, not the label
  object.
\<close>

fun classify ::
  "pyobj list \<Rightarrow> string list \<Rightarrow> string list \<Rightarrow> string list \<times> string list \<Rightarrow>
   (string list \<times> string list) res" where
  "classify [] valid invalid acc = ret acc"
| "classify (label # rest) valid invalid acc =
     and_then (attr_name label) (\<lambda>name.
     classify rest valid invalid
       (if name \<in> set valid then fst acc @ [name] else fst acc,
        if name \<in> set invalid then snd acc @ [name] else snd acc))"

text \<open>
  Lines 153 to 157. The loop variable runs over \<open>pr_valid_labels\<close>, whose elements are
  strings, and line 155 reads its attribute \<open>name\<close>.
\<close>

fun parity_loop :: "string list \<Rightarrow> string list \<Rightarrow> bool \<Rightarrow> bool res" where
  "parity_loop [] pr_valid_labels parity_label_conflict = ret parity_label_conflict"
| "parity_loop (label # rest) pr_valid_labels parity_label_conflict =
     and_then (attr_name (Str label)) (\<lambda>name.
     parity_loop rest pr_valid_labels
       (if contains (lower name) ''no parity'' then 1 < length pr_valid_labels
        else parity_label_conflict))"

text \<open>Lines 166 to 170.\<close>

fun forbidden_loop :: "string list \<Rightarrow> string \<Rightarrow> string \<Rightarrow> string res" where
  "forbidden_loop [] repo forbidden_label = ret forbidden_label"
| "forbidden_loop (label # rest) repo forbidden_label =
     and_then (meth_split (Str label)) (\<lambda>ws.
     and_then (last_item ws) (\<lambda>last_word.
     forbidden_loop rest repo
       (if contains (lower repo) (lower last_word) then label else forbidden_label)))"

text \<open>Lines 135 to 188.\<close>

definition evaluate :: "string list \<Rightarrow> string \<Rightarrow> string list \<Rightarrow> string list \<Rightarrow> unit res" where
  \<open>evaluate valid repo pr_valid_labels pr_invalid_labels =
     and_then
       (if pr_invalid_labels \<noteq> [] then
          and_then (eprint [Lit ''Error! This pull request contains the following invalid labels: '',
                            FmtList pr_invalid_labels]) (\<lambda>_.
          and_then (print [Lit ''Exiting with an error code'']) (\<lambda>_.
          sys_exit 1))
        else print [Lit ''This pull request does not contain invalid labels'']) (\<lambda>_.
     if pr_valid_labels = [] then
       and_then (eprint [Lit ''Error! This pull request must contain at least one of these labels: '',
                         FmtList valid]) (\<lambda>_.
       and_then (print [Lit ''Exiting with an error code'']) (\<lambda>_.
       sys_exit 1))
     else
       and_then (parity_loop pr_valid_labels pr_valid_labels False) (\<lambda>parity_label_conflict.
       and_then
         (if parity_label_conflict then
            and_then (eprint [Lit ''Error! A "no parity" label cannot accompany other parity labels: '',
                              FmtList pr_valid_labels]) (\<lambda>_.
            and_then (print [Lit ''Exiting with an error code'']) (\<lambda>_.
            sys_exit 1))
          else
            and_then (forbidden_loop pr_valid_labels repo []) (\<lambda>forbidden_label.
            if forbidden_label \<noteq> [] then
              and_then (eprint [Lit ''Error! Label is not allowed to target this repo: '',
                                Fmt forbidden_label]) (\<lambda>_.
              and_then (print [Lit ''Exiting with an error code'']) (\<lambda>_.
              sys_exit 1))
            else
              print [Lit ''This pull request contains the following valid labels: '',
                     FmtList pr_valid_labels])) (\<lambda>_.
       if pr_invalid_labels = [] \<and> pr_valid_labels \<noteq> [] then
         and_then (print [Lit ''All labels are OK in this pull request'']) (\<lambda>_.
         and_then (print [Lit ''Exiting without an error code'']) (\<lambda>_.
         sys_exit 0))
       else ret ())))\<close>

text \<open>Lines 109 to 188: the labels are fetched, classified and judged.\<close>

definition check_labels :: "config \<Rightarrow> pull \<Rightarrow> unit res" where
  "check_labels cfg pr =
     and_then (get_labels pr) (\<lambda>pr_labels.
     and_then (classify pr_labels (valid_labels cfg) (invalid_labels cfg) ([], [])) (\<lambda>found.
     evaluate (valid_labels cfg) (repo_name cfg) (fst found) (snd found)))"

text \<open>The whole script.\<close>

definition main :: "string list \<Rightarrow> (string \<rightharpoonup> string) \<Rightarrow> github \<Rightarrow> unit res" where
  "main argv environ gh =
     and_then (startup argv environ) (\<lambda>cfg.
     and_then (locate cfg gh) (\<lambda>pr.
     check_labels cfg pr))"

section \<open>Notions the properties are stated with\<close>

text \<open>
  The "no parity" conflict, as the specification words it: some valid label found on the
  pull request contains "no parity", whatever the case of its letters, and more than one
  valid label was found.
\<close>

definition parity_conflict :: "string list \<Rightarrow> bool" where
  "parity_conflict found \<longleftrightarrow>
     (\<exists>l \<in> set found. contains (lower l) ''no parity'') \<and> 1 < length found"

text \<open>
  A self-referential label, as the specification words it: its last word, in lower case,
  occurs in the lower-cased full name of the repository.
\<close>

definition self_referential :: "string \<Rightarrow> string \<Rightarrow> bool" where
  "self_referential repo l \<longleftrightarrow>
     split_ws l \<noteq> [] \<and> contains (lower repo) (lower (last (split_ws l)))"

text \<open>
  The pattern \<open>refs/pull/<digits>/merge\<close> occurs in \<open>s\<close> after \<open>pre\<close>, with the digits
  \<open>g\<close>, and \<open>post\<close> follows it.
\<close>

definition ref_match :: "string \<Rightarrow> string \<Rightarrow> string \<Rightarrow> string \<Rightarrow> bool" where
  "ref_match s pre g post \<longleftrightarrow>
     s = pre @ ''refs/pull/'' @ g @ ''/merge'' @ post \<and> g \<noteq> [] \<and> list_all is_digit g"

text \<open>The line \<open>get_env_var\<close> writes to the error stream for a variable.\<close>

definition env_error :: "string \<Rightarrow> event" where
  "env_error name =
     Err [Lit ''ERROR: The environmental variable '', Fmt name, Lit '' is empty!'']"

subsection \<open>A repository to run the script on\<close>

text \<open>
  The repository \<open>org/widget\<close>, reached with the token \<open>tok\<close>, has one pull request,
  number 7, whose base is the repository itself.
\<close>

definition widget_env :: "string \<Rightarrow> string \<rightharpoonup> string" where
  "widget_env event =
     [''GITHUB_REPOSITORY'' \<mapsto> ''org/widget'',
      ''GITHUB_REF'' \<mapsto> ''refs/pull/7/merge'',
      ''GITHUB_EVENT_NAME'' \<mapsto> event]"

definition widget_pull :: "string \<Rightarrow> string list \<Rightarrow> pull" where
  "widget_pull head names =
     \<lparr>head_full_name = Some head, base_full_name = Some ''org/widget'',
      label_names = Some names\<rparr>"

definition widget_github :: "pull \<Rightarrow> github" where
  "widget_github pr =
     (\<lambda>tok name.
        if tok = ''tok'' \<and> name = ''org/widget''
        then Some (\<lambda>n. if n = 7 then Some pr else None)
        else None)"

definition widget_cfg :: "string list \<Rightarrow> string list \<Rightarrow> string \<Rightarrow> config" where
  "widget_cfg valid invalid event =
     \<lparr>token = ''tok'', valid_labels = valid, invalid_labels = invalid,
      pr_number_str = ''0'', repo_name = ''org/widget'',
      github_ref = ''refs/pull/7/merge'', github_event_name = event\<rparr>"

section \<open>How the parts of the script compose\<close>

lemmas script_defs =
  startup_def read_inputs_def get_env_var_def print_def eprint_def sys_exit_def ret_def
  raise_def call_def strip_def is_space_def locate_def get_repo_def get_pull_def
  fork_check_def resolve_pr_number_def match_here_def py_int_def is_digit_def
  digit_val_def int_space_def check_labels_def get_labels_def evaluate_def lower_def
  lower_char_def

lemmas widget_defs = widget_env_def widget_pull_def widget_github_def widget_cfg_def

lemma and_then_Inl [simp]: "and_then (tr, Inl out) f = (tr, Inl out)"
  by (simp add: and_then_def)

lemma and_then_Inr [simp]: "and_then (tr, Inr x) f = (tr @ fst (f x), snd (f x))"
  by (simp add: and_then_def split: prod.splits)

text \<open>The first loop never fails on label objects; it filters the names in order.\<close>

lemma classify_Label:
  "classify (map Label names) valid invalid acc =
     ([], Inr (fst acc @ filter (\<lambda>n. n \<in> set valid) names,
               snd acc @ filter (\<lambda>n. n \<in> set invalid) names))"
  by (induction names arbitrary: acc) (simp_all add: ret_def)

text \<open>The second loop fails in its first round: a string has no attribute \<open>name\<close>.\<close>

lemma parity_loop_Cons:
  "parity_loop (label # rest) pv c = ([], Inl (Uncaught AttributeError))"
  by (simp add: raise_def)

lemma evaluate_invalid:
  "pr_invalid_labels \<noteq> [] \<Longrightarrow>
   evaluate valid repo pr_valid_labels pr_invalid_labels =
     ([Err [Lit ''Error! This pull request contains the following invalid labels: '',
            FmtList pr_invalid_labels],
       Out [Lit ''Exiting with an error code'']], Inl (Exit 1))"
  by (simp add: evaluate_def eprint_def print_def sys_exit_def)

lemma evaluate_none_valid:
  "evaluate valid repo [] [] =
     ([Out [Lit ''This pull request does not contain invalid labels''],
       Err [Lit ''Error! This pull request must contain at least one of these labels: '',
            FmtList valid],
       Out [Lit ''Exiting with an error code'']], Inl (Exit 1))"
  by (simp add: evaluate_def eprint_def print_def sys_exit_def)

lemma evaluate_some_valid:
  "pr_valid_labels \<noteq> [] \<Longrightarrow>
   evaluate valid repo pr_valid_labels [] =
     ([Out [Lit ''This pull request does not contain invalid labels'']],
      Inl (Uncaught AttributeError))"
  by (cases pr_valid_labels) (simp_all add: evaluate_def print_def raise_def)

lemma check_labels_fetched:
  "label_names pr = Some names \<Longrightarrow>
   check_labels cfg pr =
     (Call GetLabels #
        fst (evaluate (valid_labels cfg) (repo_name cfg)
               (filter (\<lambda>n. n \<in> set (valid_labels cfg)) names)
               (filter (\<lambda>n. n \<in> set (invalid_labels cfg)) names)),
      snd (evaluate (valid_labels cfg) (repo_name cfg)
               (filter (\<lambda>n. n \<in> set (valid_labels cfg)) names)
               (filter (\<lambda>n. n \<in> set (invalid_labels cfg)) names)))"
  by (simp add: check_labels_def get_labels_def call_def ret_def classify_Label)

lemma main_reaches:
  "startup argv environ = (tr0, Inr cfg) \<Longrightarrow> locate cfg gh = (tr1, Inr pr) \<Longrightarrow>
   main argv environ gh =
     (tr0 @ tr1 @ fst (check_labels cfg pr), snd (check_labels cfg pr))"
  by (simp add: main_def)

lemma fst_and_then:
  "fst (and_then m f) = fst m @ (case snd m of Inl out \<Rightarrow> [] | Inr x \<Rightarrow> fst (f x))"
  by (cases m) (simp add: and_then_def split: sum.splits prod.splits)

lemma snd_and_then:
  "snd (and_then m f) = (case snd m of Inl out \<Rightarrow> Inl out | Inr x \<Rightarrow> snd (f x))"
  by (cases m) (simp add: and_then_def split: sum.splits prod.splits)

text \<open>Runs on \<open>org/widget\<close> up to the labels, for an event that is not the target one.\<close>

lemma widget_startup:
  "startup [''prog'', ''tok'', ''feature'', ''blocked'', ''0'', ''x'']
     (widget_env ''pull_request'') =
     ([Out [Lit ''Valid labels are: '', FmtList [''feature'']],
       Out [Lit ''Invalid labels are: '', FmtList [''blocked'']]],
      Inr (widget_cfg [''feature''] [''blocked''] ''pull_request''))"
  by (simp add: script_defs widget_defs)

lemma widget_locate:
  "locate (widget_cfg valid invalid ''pull_request'')
     (widget_github (widget_pull ''org/widget'' names)) =
     ([Call (GetRepo ''tok'' ''org/widget''),
       Out [Lit ''Pull request number: '', FmtInt 7],
       Call (GetPull 7)],
      Inr (widget_pull ''org/widget'' names))"
  by (simp add: script_defs widget_defs)

section \<open>Substrings\<close>

lemma starts_with_iff: "starts_with s p \<longleftrightarrow> (\<exists>t. s = p @ t)"
  by (induction s p rule: starts_with.induct) auto

text \<open>\<open>contains hay needle\<close> holds exactly when \<open>needle\<close> occurs in \<open>hay\<close>.\<close>

lemma contains_iff: "contains hay needle \<longleftrightarrow> (\<exists>pre post. hay = pre @ needle @ post)"
proof (induction hay)
  case Nil
  then show ?case by simp
next
  case (Cons c cs)
  have "(\<exists>pre post. c # cs = pre @ needle @ post) \<longleftrightarrow>
        (\<exists>post. c # cs = needle @ post) \<or> (\<exists>pre post. cs = pre @ needle @ post)"
  proof
    assume "\<exists>pre post. c # cs = pre @ needle @ post"
    then obtain pre post where e: "c # cs = pre @ needle @ post" by blast
    then show "(\<exists>post. c # cs = needle @ post) \<or> (\<exists>pre post. cs = pre @ needle @ post)"
      by (cases pre) auto
  next
    assume "(\<exists>post. c # cs = needle @ post) \<or> (\<exists>pre post. cs = pre @ needle @ post)"
    then show "\<exists>pre post. c # cs = pre @ needle @ post"
    proof
      assume "\<exists>post. c # cs = needle @ post"
      then obtain post where "c # cs = [] @ needle @ post" by auto
      then show ?thesis by blast
    next
      assume "\<exists>pre post. cs = pre @ needle @ post"
      then obtain pre post where "c # cs = (c # pre) @ needle @ post" by auto
      then show ?thesis by blast
    qed
  qed
  with Cons.IH show ?case
    by (simp add: starts_with_iff del: starts_with.simps)
qed

section \<open>The label rules\<close>

text \<open>
  C4. In a run that reaches the labels, if some label of the pull request is in the list
  of invalid labels, the script writes the invalid labels it found to the error stream
  and exits with status 1 at once: nothing else follows in the trace, whatever the other
  labels are.
\<close>

theorem invalid_label_exits_1:
  assumes "startup argv environ = (tr0, Inr cfg)"
    and "locate cfg gh = (tr1, Inr pr)"
    and "label_names pr = Some names"
    and "\<exists>n \<in> set names. n \<in> set (invalid_labels cfg)"
  shows "main argv environ gh =
     (tr0 @ tr1 @
      [Call GetLabels,
       Err [Lit ''Error! This pull request contains the following invalid labels: '',
            FmtList (filter (\<lambda>n. n \<in> set (invalid_labels cfg)) names)],
       Out [Lit ''Exiting with an error code'']],
      Inl (Exit 1))"
proof -
  from assms(4) have "filter (\<lambda>n. n \<in> set (invalid_labels cfg)) names \<noteq> []"
    by (simp add: filter_empty_conv)
  then show ?thesis
    by (simp add: main_reaches [OF assms(1,2)] check_labels_fetched [OF assms(3)]
        evaluate_invalid)
qed

theorem invalid_label_exits_1_witness:
  "main [''prog'', ''tok'', ''feature'', ''blocked'', ''0'', ''x''] (widget_env ''pull_request'')
     (widget_github (widget_pull ''org/widget'' [''feature'', ''blocked''])) =
     ([Out [Lit ''Valid labels are: '', FmtList [''feature'']],
       Out [Lit ''Invalid labels are: '', FmtList [''blocked'']],
       Call (GetRepo ''tok'' ''org/widget''),
       Out [Lit ''Pull request number: '', FmtInt 7],
       Call (GetPull 7),
       Call GetLabels,
       Err [Lit ''Error! This pull request contains the following invalid labels: '',
            FmtList [''blocked'']],
       Out [Lit ''Exiting with an error code'']],
      Inl (Exit 1))"
proof -
  have n: "label_names (widget_pull ''org/widget'' [''feature'', ''blocked'']) =
           Some [''feature'', ''blocked'']"
    by (simp add: widget_defs)
  have h: "\<exists>n \<in> set [''feature'', ''blocked''].
             n \<in> set (invalid_labels (widget_cfg [''feature''] [''blocked''] ''pull_request''))"
    by (simp add: widget_defs)
  show ?thesis
    using invalid_label_exits_1 [OF widget_startup widget_locate n h]
    by (simp add: widget_defs)
qed

text \<open>
  C5. In a run that reaches the labels, if no label of the pull request is in the list of
  invalid labels and none is in the list of valid labels, the script writes to the error
  stream that one of the valid labels is required, and exits with status 1.
\<close>

theorem no_valid_label_exits_1:
  assumes "startup argv environ = (tr0, Inr cfg)"
    and "locate cfg gh = (tr1, Inr pr)"
    and "label_names pr = Some names"
    and "\<forall>n \<in> set names. n \<notin> set (invalid_labels cfg)"
    and "\<forall>n \<in> set names. n \<notin> set (valid_labels cfg)"
  shows "main argv environ gh =
     (tr0 @ tr1 @
      [Call GetLabels,
       Out [Lit ''This pull request does not contain invalid labels''],
       Err [Lit ''Error! This pull request must contain at least one of these labels: '',
            FmtList (valid_labels cfg)],
       Out [Lit ''Exiting with an error code'']],
      Inl (Exit 1))"
proof -
  from assms(4) have i: "filter (\<lambda>n. n \<in> set (invalid_labels cfg)) names = []"
    by (simp add: filter_empty_conv)
  from assms(5) have v: "filter (\<lambda>n. n \<in> set (valid_labels cfg)) names = []"
    by (simp add: filter_empty_conv)
  show ?thesis
    by (simp add: main_reaches [OF assms(1,2)] check_labels_fetched [OF assms(3)] i v
        evaluate_none_valid)
qed

theorem no_valid_label_exits_1_witness:
  "main [''prog'', ''tok'', ''feature'', ''blocked'', ''0'', ''x''] (widget_env ''pull_request'')
     (widget_github (widget_pull ''org/widget'' [''docs''])) =
     ([Out [Lit ''Valid labels are: '', FmtList [''feature'']],
       Out [Lit ''Invalid labels are: '', FmtList [''blocked'']],
       Call (GetRepo ''tok'' ''org/widget''),
       Out [Lit ''Pull request number: '', FmtInt 7],
       Call (GetPull 7),
       Call GetLabels,
       Out [Lit ''This pull request does not contain invalid labels''],
       Err [Lit ''Error! This pull request must contain at least one of these labels: '',
            FmtList [''feature'']],
       Out [Lit ''Exiting with an error code'']],
      Inl (Exit 1))"
proof -
  have n: "label_names (widget_pull ''org/widget'' [''docs'']) = Some [''docs'']"
    by (simp add: widget_defs)
  have i: "\<forall>n \<in> set [''docs''].
             n \<notin> set (invalid_labels (widget_cfg [''feature''] [''blocked''] ''pull_request''))"
    by (simp add: widget_defs)
  have v: "\<forall>n \<in> set [''docs''].
             n \<notin> set (valid_labels (widget_cfg [''feature''] [''blocked''] ''pull_request''))"
    by (simp add: widget_defs)
  show ?thesis
    using no_valid_label_exits_1 [OF widget_startup widget_locate n i v]
    by (simp add: widget_defs)
qed

text \<open>
  What happens once a valid label has been found and no invalid one: the loop of line
  154 takes the first valid label, a string, and line 155 asks for its attribute
  \<open>name\<close>. The run ends there with an \<open>AttributeError\<close>; the lines 156 to 188 are
  never reached.
\<close>

lemma valid_label_crash:
  assumes "startup argv environ = (tr0, Inr cfg)"
    and "locate cfg gh = (tr1, Inr pr)"
    and "label_names pr = Some names"
    and "\<forall>n \<in> set names. n \<notin> set (invalid_labels cfg)"
    and "\<exists>n \<in> set names. n \<in> set (valid_labels cfg)"
  shows "main argv environ gh =
     (tr0 @ tr1 @
      [Call GetLabels, Out [Lit ''This pull request does not contain invalid labels'']],
      Inl (Uncaught AttributeError))"
proof -
  from assms(4) have i: "filter (\<lambda>n. n \<in> set (invalid_labels cfg)) names = []"
    by (simp add: filter_empty_conv)
  from assms(5) have v: "filter (\<lambda>n. n \<in> set (valid_labels cfg)) names \<noteq> []"
    by (simp add: filter_empty_conv)
  show ?thesis
    by (simp add: main_reaches [OF assms(1,2)] check_labels_fetched [OF assms(3)] i
        evaluate_some_valid [OF v])
qed


text \<open>
  C1. The pull request of \<open>org/widget\<close> carries the single label \<open>no parity\<close>, which
  is in the list of valid labels; no label is invalid, there is no "no parity" conflict
  and the label is not self-referential. The run does not print the confirmation and does
  not exit with status 0: it ends with the \<open>AttributeError\<close> of line 155.
\<close>

theorem sole_no_parity_label_run:
  "main [''prog'', ''tok'', ''no parity'', ''blocked'', ''0'', ''x'']
     (widget_env ''pull_request'')
     (widget_github (widget_pull ''org/widget'' [''no parity''])) =
     ([Out [Lit ''Valid labels are: '', FmtList [''no parity'']],
       Out [Lit ''Invalid labels are: '', FmtList [''blocked'']],
       Call (GetRepo ''tok'' ''org/widget''),
       Out [Lit ''Pull request number: '', FmtInt 7],
       Call (GetPull 7),
       Call GetLabels,
       Out [Lit ''This pull request does not contain invalid labels'']],
      Inl (Uncaught AttributeError)) \<and>
   \<not> parity_conflict [''no parity''] \<and>
   \<not> self_referential ''org/widget'' ''no parity''"
  by (simp add: main_def script_defs widget_defs parity_conflict_def self_referential_def)

text \<open>
  C2. The pull request of \<open>org/widget\<close> carries the labels \<open>no parity\<close> and
  \<open>feature parity\<close>, both in the list of valid labels: a "no parity" conflict. The run
  does not report the conflict: it ends with the \<open>AttributeError\<close> of line 155 before
  line 160 is reached.
\<close>

theorem parity_conflict_run:
  "main [''prog'', ''tok'', ''no parity, feature parity'', ''blocked'', ''0'', ''x'']
     (widget_env ''pull_request'')
     (widget_github (widget_pull ''org/widget'' [''no parity'', ''feature parity''])) =
     ([Out [Lit ''Valid labels are: '', FmtList [''no parity'', ''feature parity'']],
       Out [Lit ''Invalid labels are: '', FmtList [''blocked'']],
       Call (GetRepo ''tok'' ''org/widget''),
       Out [Lit ''Pull request number: '', FmtInt 7],
       Call (GetPull 7),
       Call GetLabels,
       Out [Lit ''This pull request does not contain invalid labels'']],
      Inl (Uncaught AttributeError)) \<and>
   parity_conflict [''no parity'', ''feature parity'']"
  by (simp add: main_def script_defs widget_defs parity_conflict_def)

section \<open>The status of a run\<close>

text \<open>
  Every way out of the script gives the status 1: each \<open>sys.exit\<close> that can be
  reached has the argument 1, and an uncaught exception gives 1 as well. The
  \<open>sys.exit(0)\<close> of line 188 comes after the loop of line 154, which never completes.
\<close>

lemma startup_fails_1: "snd (startup argv environ) = Inl out \<Longrightarrow> out = Exit 1"
  by (auto simp: startup_def read_inputs_def get_env_var_def eprint_def print_def
      sys_exit_def ret_def split: if_splits option.splits)

lemma fork_check_fails_1:
  "snd (fork_check pr e) = Inl out \<Longrightarrow> exit_status (Inl out) = 1"
  by (cases "head_full_name pr"; cases "base_full_name pr")
     (auto simp: fork_check_def raise_def ret_def eprint_def sys_exit_def split: if_splits)

lemma resolve_fails_1:
  "snd (resolve_pr_number e h r) = Inl out \<Longrightarrow> exit_status (Inl out) = 1"
  by (auto simp: resolve_pr_number_def raise_def ret_def eprint_def sys_exit_def
      split: if_splits option.splits)

lemma locate_fails_1: "snd (locate cfg gh) = Inl out \<Longrightarrow> exit_status (Inl out) = 1"
  by (auto simp: locate_def get_repo_def get_pull_def snd_and_then call_def print_def
      raise_def ret_def
      split: sum.splits option.splits dest: resolve_fails_1 fork_check_fails_1)

lemma evaluate_status_1: "exit_status (snd (evaluate valid repo pv pi)) = 1"
proof (cases "pi = []")
  case True
  then show ?thesis
    by (cases "pv = []") (simp_all add: evaluate_none_valid evaluate_some_valid)
next
  case False
  then show ?thesis by (simp add: evaluate_invalid)
qed

lemma check_labels_status_1: "exit_status (snd (check_labels cfg pr)) = 1"
proof (cases "label_names pr")
  case None
  then show ?thesis
    by (simp add: check_labels_def get_labels_def call_def raise_def)
next
  case (Some names)
  then show ?thesis
    by (simp add: check_labels_fetched evaluate_status_1)
qed

lemma main_status_1: "exit_status (snd (main argv environ gh)) = 1"
proof (cases "snd (startup argv environ)")
  case (Inl out)
  then show ?thesis
    using startup_fails_1 [OF Inl] by (simp add: main_def snd_and_then)
next
  case cfg: (Inr cfg)
  show ?thesis
  proof (cases "snd (locate cfg gh)")
    case (Inl out)
    then show ?thesis
      using locate_fails_1 [OF Inl] cfg by (simp add: main_def snd_and_then)
  next
    case (Inr pr)
    then show ?thesis
      using cfg by (simp add: main_def snd_and_then check_labels_status_1)
  qed
qed

section \<open>Resolving the number of the pull request\<close>

lemma is_digit_not_space: "is_digit c \<Longrightarrow> \<not> int_space c"
  by (auto simp: is_digit_def int_space_def Let_def)

lemma is_digit_not_sign: "is_digit c \<Longrightarrow> c \<noteq> CHR ''-'' \<and> c \<noteq> CHR ''+''"
  by (auto simp: is_digit_def)

lemma scan_digits_all:
  "list_all is_digit r \<Longrightarrow>
   scan_digits acc r = (foldl (\<lambda>a c. a * 10 + digit_val c) acc r, [])"
  by (induction acc r rule: scan_digits.induct) simp_all

text \<open>\<open>int\<close> of a non-empty string of digits is its decimal value: it cannot fail.\<close>

lemma py_int_digits:
  assumes "g \<noteq> []" and "list_all is_digit g"
  shows "py_int g = Some (digits_value g)"
proof -
  from assms obtain d r where g: "g = d # r" and d: "is_digit d" and r: "list_all is_digit r"
    by (cases g) auto
  from d have "dropWhile int_space g = g"
    by (simp add: g is_digit_not_space)
  with d r show ?thesis
    using is_digit_not_sign [OF d]
    by (simp add: py_int_def g scan_digits_all digits_value_def)
qed

lemma after_prefix_iff: "after_prefix p s = Some r \<longleftrightarrow> s = p @ r"
  by (induction p s rule: after_prefix.induct) auto

lemma not_digit_slash: "\<not> is_digit CHR ''/''"
  by (simp add: is_digit_def)

text \<open>A match at the first character is an occurrence of the pattern after nothing.\<close>

lemma match_here_iff: "match_here s = Some g \<longleftrightarrow> (\<exists>post. ref_match s [] g post)"
proof
  assume m: "match_here s = Some g"
  then obtain r where r: "after_prefix ''refs/pull/'' s = Some r"
    by (auto simp: match_here_def split: option.splits)
  with m have g: "g = takeWhile is_digit r" and ne: "g \<noteq> []"
    and sw: "starts_with (dropWhile is_digit r) ''/merge''"
    by (auto simp: match_here_def split: if_splits)
  from sw obtain post where "dropWhile is_digit r = ''/merge'' @ post"
    unfolding starts_with_iff by blast
  then have "r = g @ ''/merge'' @ post"
    using takeWhile_dropWhile_id [of is_digit r] by (simp add: g)
  moreover have "list_all is_digit g"
    by (auto simp: g list_all_iff dest: set_takeWhileD)
  ultimately have "ref_match s [] g post"
    using r ne by (simp add: ref_match_def after_prefix_iff)
  then show "\<exists>post. ref_match s [] g post" ..
next
  assume "\<exists>post. ref_match s [] g post"
  then obtain post where s: "s = ''refs/pull/'' @ g @ ''/merge'' @ post"
    and ne: "g \<noteq> []" and dg: "list_all is_digit g"
    by (auto simp: ref_match_def)
  from dg have tw: "takeWhile is_digit (g @ CHR ''/'' # t) = g" for t
    by (simp add: list_all_iff takeWhile_append2 not_digit_slash)
  from dg have dw: "dropWhile is_digit (g @ CHR ''/'' # t) = CHR ''/'' # t" for t
    by (simp add: list_all_iff dropWhile_append2 not_digit_slash)
  from ne show "match_here s = Some g"
    by (simp add: match_here_def s tw dw)
qed

lemma ref_match_Nil: "\<not> ref_match [] pre g post"
  by (simp add: ref_match_def)

lemma ref_match_Cons_Cons:
  "ref_match (c # cs) (c' # pre) g post \<longleftrightarrow> c' = c \<and> ref_match cs pre g post"
  by (auto simp: ref_match_def)

text \<open>The search finds nothing exactly when the pattern occurs nowhere.\<close>

lemma re_search_None_iff:
  "re_search s = None \<longleftrightarrow> (\<forall>pre g post. \<not> ref_match s pre g post)"
proof (induction s)
  case Nil
  then show ?case
    by (simp add: ref_match_Nil match_here_def)
next
  case step: (Cons c cs)
  have here: "match_here (c # cs) = None \<longleftrightarrow> (\<forall>g post. \<not> ref_match (c # cs) [] g post)"
  proof -
    have "match_here (c # cs) = None \<longleftrightarrow> (\<forall>g. match_here (c # cs) \<noteq> Some g)"
      by simp
    also have "\<dots> \<longleftrightarrow> (\<forall>g post. \<not> ref_match (c # cs) [] g post)"
      unfolding match_here_iff by blast
    finally show ?thesis .
  qed
  have "re_search (c # cs) = None \<longleftrightarrow> match_here (c # cs) = None \<and> re_search cs = None"
    by (simp split: option.splits)
  also have "\<dots> \<longleftrightarrow> (\<forall>g post. \<not> ref_match (c # cs) [] g post) \<and>
                      (\<forall>pre g post. \<not> ref_match cs pre g post)"
    unfolding here step.IH ..
  also have "\<dots> \<longleftrightarrow> (\<forall>pre g post. \<not> ref_match (c # cs) pre g post)"
  proof -
    have later: "ref_match (c # cs) (c # pre) g post" if "ref_match cs pre g post" for pre g post
      using that by (simp add: ref_match_Cons_Cons)
    have split: "ref_match (c # cs) [] g post \<or> (\<exists>pre'. ref_match cs pre' g post)"
      if "ref_match (c # cs) pre g post" for pre g post
      using that by (cases pre) (auto simp: ref_match_Cons_Cons)
    show ?thesis
      using later split by blast
  qed
  finally show ?case .
qed

text \<open>The search returns the digits of the leftmost occurrence.\<close>

lemma re_search_leftmost:
  assumes "ref_match s pre g post"
    and "\<forall>pre' g' post'. ref_match s pre' g' post' \<longrightarrow> length pre \<le> length pre'"
  shows "re_search s = Some g"
  using assms
proof (induction s arbitrary: pre)
  case Nil
  then show ?case by (simp add: ref_match_Nil)
next
  case step: (Cons c cs)
  show ?case
  proof (cases pre)
    case Nil
    with step.prems(1) have "match_here (c # cs) = Some g"
      unfolding match_here_iff by blast
    then show ?thesis by simp
  next
    case longer: (Cons c' pre')
    with step.prems(1) have m: "ref_match cs pre' g post"
      by (simp add: ref_match_Cons_Cons)
    have "match_here (c # cs) = None"
    proof (rule ccontr)
      assume "match_here (c # cs) \<noteq> None"
      then obtain g' where "match_here (c # cs) = Some g'"
        by blast
      then obtain post' where "ref_match (c # cs) [] g' post'"
        unfolding match_here_iff by blast
      with step.prems(2) have "length pre \<le> length ([] :: string)" by blast
      with longer show False by simp
    qed
    moreover have "\<forall>pre'' g' post'. ref_match cs pre'' g' post' \<longrightarrow> length pre' \<le> length pre''"
    proof (intro allI impI)
      fix pre'' g' post'
      assume "ref_match cs pre'' g' post'"
      then have "ref_match (c # cs) (c # pre'') g' post'"
        by (simp add: ref_match_Cons_Cons)
      with step.prems(2) have "length pre \<le> length (c # pre'')" by blast
      with longer show "length pre' \<le> length pre''" by simp
    qed
    ultimately show ?thesis
      using step.IH [OF m] by simp
  qed
qed

lemma re_search_digits: "re_search s = Some g \<Longrightarrow> g \<noteq> [] \<and> list_all is_digit g"
proof (induction s)
  case Nil
  then show ?case by (simp add: match_here_def)
next
  case (Cons c cs)
  then show ?case
    by (auto simp: match_here_iff ref_match_def split: option.splits)
qed

lemma resolve_by_ref:
  "event \<noteq> ''pull_request_target'' \<Longrightarrow> re_search ref = Some g \<Longrightarrow>
   resolve_pr_number event hint ref = ([], Inr (digits_value g))"
  using re_search_digits [of ref g]
  by (simp add: resolve_pr_number_def py_int_digits ret_def)

text \<open>Once the number is known, it is printed and the pull request is asked for.\<close>

lemma locate_numbered:
  assumes "gh (token cfg) (repo_name cfg) = Some repo"
    and "resolve_pr_number (github_event_name cfg) (pr_number_str cfg) (github_ref cfg) =
         ([], Inr n)"
  shows "\<exists>rest. fst (locate cfg gh) =
     [Call (GetRepo (token cfg) (repo_name cfg)),
      Out [Lit ''Pull request number: '', FmtInt n],
      Call (GetPull n)] @ rest"
  using assms
  by (simp add: locate_def get_repo_def get_pull_def call_def print_def ret_def fst_and_then)

lemma locate_unnumbered:
  assumes "gh (token cfg) (repo_name cfg) = Some repo"
    and "resolve_pr_number (github_event_name cfg) (pr_number_str cfg) (github_ref cfg) =
         ([Err msg], Inl (Exit 1))"
  shows "locate cfg gh =
     ([Call (GetRepo (token cfg) (repo_name cfg)), Err msg], Inl (Exit 1))"
  using assms
  by (simp add: locate_def get_repo_def call_def ret_def)

lemma main_numbered:
  assumes "startup argv environ = (tr0, Inr cfg)"
    and "gh (token cfg) (repo_name cfg) = Some repo"
    and "resolve_pr_number (github_event_name cfg) (pr_number_str cfg) (github_ref cfg) =
         ([], Inr n)"
  shows "\<exists>rest. fst (main argv environ gh) =
     tr0 @
     [Call (GetRepo (token cfg) (repo_name cfg)),
      Out [Lit ''Pull request number: '', FmtInt n],
      Call (GetPull n)] @ rest"
proof -
  from locate_numbered [where gh = gh, OF assms(2,3)] obtain rest where
    "fst (locate cfg gh) =
     [Call (GetRepo (token cfg) (repo_name cfg)),
      Out [Lit ''Pull request number: '', FmtInt n],
      Call (GetPull n)] @ rest" ..
  then show ?thesis
    by (simp add: main_def assms(1) fst_and_then)
qed

lemma main_unnumbered:
  assumes "startup argv environ = (tr0, Inr cfg)"
    and "gh (token cfg) (repo_name cfg) = Some repo"
    and "resolve_pr_number (github_event_name cfg) (pr_number_str cfg) (github_ref cfg) =
         ([Err msg], Inl (Exit 1))"
  shows "main argv environ gh =
     (tr0 @ [Call (GetRepo (token cfg) (repo_name cfg)), Err msg], Inl (Exit 1))"
  by (simp add: main_def assms(1) locate_unnumbered [where gh = gh, OF assms(2,3)])

text \<open>
  C7. In a run that has read its inputs and found the repository: when the event is
  \<open>pull_request_target\<close>, the number of the pull request is \<open>int\<close> of the hint
  argument (it is printed, and the pull request of that number is asked for), and a hint
  that \<open>int\<close> rejects makes the script write an error and exit with status 1; for any
  other event, the number is the value of the digits of the leftmost occurrence of
  \<open>refs/pull/<digits>/merge\<close> in \<open>GITHUB_REF\<close>, and when the pattern occurs nowhere
  the script writes an error and exits with status 1.
\<close>

theorem pr_number_resolution:
  assumes "startup argv environ = (tr0, Inr cfg)"
    and "gh (token cfg) (repo_name cfg) = Some repo"
  shows \<open>(github_event_name cfg = ''pull_request_target'' \<longrightarrow>
       (\<forall>n. py_int (pr_number_str cfg) = Some n \<longrightarrow>
          (\<exists>rest. fst (main argv environ gh) =
             tr0 @
             [Call (GetRepo (token cfg) (repo_name cfg)),
              Out [Lit ''Pull request number: '', FmtInt n],
              Call (GetPull n)] @ rest)) \<and>
       (py_int (pr_number_str cfg) = None \<longrightarrow>
          main argv environ gh =
            (tr0 @
             [Call (GetRepo (token cfg) (repo_name cfg)),
              Err [Lit ''ERROR: A valid pull request number input must be defined when '',
                   Lit ''triggering on "pull_request_target". The pull request number '',
                   Lit ''passed was "{pr_number_str}".'']],
             Inl (Exit 1)))) \<and>
     (github_event_name cfg \<noteq> ''pull_request_target'' \<longrightarrow>
       (\<forall>pre g post.
          ref_match (github_ref cfg) pre g post \<and>
          (\<forall>pre' g' post'. ref_match (github_ref cfg) pre' g' post' \<longrightarrow>
             length pre \<le> length pre') \<longrightarrow>
          (\<exists>rest. fst (main argv environ gh) =
             tr0 @
             [Call (GetRepo (token cfg) (repo_name cfg)),
              Out [Lit ''Pull request number: '', FmtInt (digits_value g)],
              Call (GetPull (digits_value g))] @ rest)) \<and>
       ((\<forall>pre g post. \<not> ref_match (github_ref cfg) pre g post) \<longrightarrow>
          main argv environ gh =
            (tr0 @
             [Call (GetRepo (token cfg) (repo_name cfg)),
              Err [Lit ''ERROR: The pull request number could not be extracted from '',
                   Lit ''GITHUB_REF = "'', Fmt (github_ref cfg), Lit ''"'']],
             Inl (Exit 1))))\<close>
proof (intro conjI impI allI)
  fix n
  assume "github_event_name cfg = ''pull_request_target''"
    and "py_int (pr_number_str cfg) = Some n"
  then have "resolve_pr_number (github_event_name cfg) (pr_number_str cfg) (github_ref cfg) =
      ([], Inr n)"
    by (simp add: resolve_pr_number_def ret_def)
  from main_numbered [where gh = gh, OF assms this]
  show "\<exists>rest. fst (main argv environ gh) =
     tr0 @
     [Call (GetRepo (token cfg) (repo_name cfg)),
      Out [Lit ''Pull request number: '', FmtInt n],
      Call (GetPull n)] @ rest" .
next
  assume "github_event_name cfg = ''pull_request_target''"
    and "py_int (pr_number_str cfg) = None"
  then have \<open>resolve_pr_number (github_event_name cfg) (pr_number_str cfg) (github_ref cfg) =
      ([Err [Lit ''ERROR: A valid pull request number input must be defined when '',
             Lit ''triggering on "pull_request_target". The pull request number '',
             Lit ''passed was "{pr_number_str}".'']], Inl (Exit 1))\<close>
    by (simp add: resolve_pr_number_def eprint_def sys_exit_def)
  from main_unnumbered [where gh = gh, OF assms this]
  show \<open>main argv environ gh =
    (tr0 @
     [Call (GetRepo (token cfg) (repo_name cfg)),
      Err [Lit ''ERROR: A valid pull request number input must be defined when '',
           Lit ''triggering on "pull_request_target". The pull request number '',
           Lit ''passed was "{pr_number_str}".'']],
     Inl (Exit 1))\<close> .
next
  fix pre g post
  assume e: "github_event_name cfg \<noteq> ''pull_request_target''"
    and m: "ref_match (github_ref cfg) pre g post \<and>
          (\<forall>pre' g' post'. ref_match (github_ref cfg) pre' g' post' \<longrightarrow>
             length pre \<le> length pre')"
  from m have "re_search (github_ref cfg) = Some g"
    using re_search_leftmost by blast
  from main_numbered [where gh = gh, OF assms resolve_by_ref [OF e this]]
  show "\<exists>rest. fst (main argv environ gh) =
     tr0 @
     [Call (GetRepo (token cfg) (repo_name cfg)),
      Out [Lit ''Pull request number: '', FmtInt (digits_value g)],
      Call (GetPull (digits_value g))] @ rest" .
next
  assume e: "github_event_name cfg \<noteq> ''pull_request_target''"
    and "\<forall>pre g post. \<not> ref_match (github_ref cfg) pre g post"
  then have "re_search (github_ref cfg) = None"
    by (simp add: re_search_None_iff)
  with e have \<open>resolve_pr_number (github_event_name cfg) (pr_number_str cfg) (github_ref cfg) =
      ([Err [Lit ''ERROR: The pull request number could not be extracted from '',
             Lit ''GITHUB_REF = "'', Fmt (github_ref cfg), Lit ''"'']], Inl (Exit 1))\<close>
    by (simp add: resolve_pr_number_def eprint_def sys_exit_def)
  from main_unnumbered [where gh = gh, OF assms this]
  show \<open>main argv environ gh =
    (tr0 @
     [Call (GetRepo (token cfg) (repo_name cfg)),
      Err [Lit ''ERROR: The pull request number could not be extracted from '',
           Lit ''GITHUB_REF = "'', Fmt (github_ref cfg), Lit ''"'']],
     Inl (Exit 1))\<close> .
qed

theorem pr_number_resolution_witness:
  \<open>(\<exists>rest. fst (main [''prog'', ''tok'', ''feature'', ''blocked'', '' 12'', ''x'']
       (widget_env ''pull_request_target'')
       (widget_github (widget_pull ''org/widget'' [''feature'']))) =
      [Out [Lit ''Valid labels are: '', FmtList [''feature'']],
       Out [Lit ''Invalid labels are: '', FmtList [''blocked'']],
       Call (GetRepo ''tok'' ''org/widget''),
       Out [Lit ''Pull request number: '', FmtInt 12],
       Call (GetPull 12)] @ rest) \<and>
   main [''prog'', ''tok'', ''feature'', ''blocked'', ''seven'', ''x'']
     (widget_env ''pull_request_target'')
     (widget_github (widget_pull ''org/widget'' [''feature''])) =
     ([Out [Lit ''Valid labels are: '', FmtList [''feature'']],
       Out [Lit ''Invalid labels are: '', FmtList [''blocked'']],
       Call (GetRepo ''tok'' ''org/widget''),
       Err [Lit ''ERROR: A valid pull request number input must be defined when '',
            Lit ''triggering on "pull_request_target". The pull request number '',
            Lit ''passed was "{pr_number_str}".'']],
      Inl (Exit 1)) \<and>
   (\<exists>rest. fst (main [''prog'', ''tok'', ''feature'', ''blocked'', ''12'', ''x'']
       (widget_env ''pull_request'')
       (widget_github (widget_pull ''org/widget'' [''feature'']))) =
      [Out [Lit ''Valid labels are: '', FmtList [''feature'']],
       Out [Lit ''Invalid labels are: '', FmtList [''blocked'']],
       Call (GetRepo ''tok'' ''org/widget''),
       Out [Lit ''Pull request number: '', FmtInt 7],
       Call (GetPull 7)] @ rest) \<and>
   main [''prog'', ''tok'', ''feature'', ''blocked'', ''12'', ''x'']
     ((widget_env ''push'')(''GITHUB_REF'' \<mapsto> ''refs/heads/main''))
     (widget_github (widget_pull ''org/widget'' [''feature''])) =
     ([Out [Lit ''Valid labels are: '', FmtList [''feature'']],
       Out [Lit ''Invalid labels are: '', FmtList [''blocked'']],
       Call (GetRepo ''tok'' ''org/widget''),
       Err [Lit ''ERROR: The pull request number could not be extracted from '',
            Lit ''GITHUB_REF = "'', Fmt ''refs/heads/main'', Lit ''"'']],
      Inl (Exit 1))\<close>
proof -
  let ?gh = "widget_github (widget_pull ''org/widget'' [''feature''])"
  let ?tr = "[Out [Lit ''Valid labels are: '', FmtList [''feature'']],
              Out [Lit ''Invalid labels are: '', FmtList [''blocked'']]]"
  let ?c1 = "(widget_cfg [''feature''] [''blocked''] ''pull_request_target'')
               \<lparr>pr_number_str := '' 12''\<rparr>"
  let ?c2 = "(widget_cfg [''feature''] [''blocked''] ''pull_request_target'')
               \<lparr>pr_number_str := ''seven''\<rparr>"
  let ?c3 = "(widget_cfg [''feature''] [''blocked''] ''pull_request'')
               \<lparr>pr_number_str := ''12''\<rparr>"
  let ?c4 = "(widget_cfg [''feature''] [''blocked''] ''push'')
               \<lparr>pr_number_str := ''12'', github_ref := ''refs/heads/main''\<rparr>"
  have s1: "startup [''prog'', ''tok'', ''feature'', ''blocked'', '' 12'', ''x'']
              (widget_env ''pull_request_target'') = (?tr, Inr ?c1)"
    by (simp add: script_defs widget_defs)
  have s2: "startup [''prog'', ''tok'', ''feature'', ''blocked'', ''seven'', ''x'']
              (widget_env ''pull_request_target'') = (?tr, Inr ?c2)"
    by (simp add: script_defs widget_defs)
  have s3: "startup [''prog'', ''tok'', ''feature'', ''blocked'', ''12'', ''x'']
              (widget_env ''pull_request'') = (?tr, Inr ?c3)"
    by (simp add: script_defs widget_defs)
  have s4: "startup [''prog'', ''tok'', ''feature'', ''blocked'', ''12'', ''x'']
              ((widget_env ''push'')(''GITHUB_REF'' \<mapsto> ''refs/heads/main'')) = (?tr, Inr ?c4)"
    by (simp add: script_defs widget_defs)
  have g: "?gh (token c) (repo_name c) =
           Some (\<lambda>n. if n = 7 then Some (widget_pull ''org/widget'' [''feature'']) else None)"
    if "token c = ''tok''" and "repo_name c = ''org/widget''" for c
    using that by (simp add: widget_github_def)
  have g1: "?gh (token ?c1) (repo_name ?c1) =
           Some (\<lambda>n. if n = 7 then Some (widget_pull ''org/widget'' [''feature'']) else None)"
    by (rule g) (simp_all add: widget_cfg_def)
  have g2: "?gh (token ?c2) (repo_name ?c2) =
           Some (\<lambda>n. if n = 7 then Some (widget_pull ''org/widget'' [''feature'']) else None)"
    by (rule g) (simp_all add: widget_cfg_def)
  have g3: "?gh (token ?c3) (repo_name ?c3) =
           Some (\<lambda>n. if n = 7 then Some (widget_pull ''org/widget'' [''feature'']) else None)"
    by (rule g) (simp_all add: widget_cfg_def)
  have g4: "?gh (token ?c4) (repo_name ?c4) =
           Some (\<lambda>n. if n = 7 then Some (widget_pull ''org/widget'' [''feature'']) else None)"
    by (rule g) (simp_all add: widget_cfg_def)
  have p1: "py_int (pr_number_str ?c1) = Some 12"
    by (simp add: widget_cfg_def py_int_def int_space_def is_digit_def digit_val_def)
  have p2: "py_int (pr_number_str ?c2) = None"
    by (simp add: widget_cfg_def py_int_def int_space_def is_digit_def digit_val_def)
  have m3: "ref_match (github_ref ?c3) [] ''7'' [] \<and>
            (\<forall>pre' g' post'. ref_match (github_ref ?c3) pre' g' post' \<longrightarrow>
               length ([] :: string) \<le> length pre')"
    by (simp add: widget_cfg_def ref_match_def is_digit_def)
  have "re_search ''refs/heads/main'' = None"
    by (simp add: match_here_def)
  then have "\<forall>pre g post. \<not> ref_match ''refs/heads/main'' pre g post"
    unfolding re_search_None_iff .
  then have m4: "\<forall>pre g post. \<not> ref_match (github_ref ?c4) pre g post"
    by (simp add: widget_cfg_def)
  have e1: "github_event_name ?c1 = ''pull_request_target''"
    and e2: "github_event_name ?c2 = ''pull_request_target''"
    and e3: "github_event_name ?c3 \<noteq> ''pull_request_target''"
    and e4: "github_event_name ?c4 \<noteq> ''pull_request_target''"
    by (simp_all add: widget_cfg_def)
  have v: "digits_value ''7'' = 7"
    by (simp add: digits_value_def digit_val_def)
  from pr_number_resolution [where gh = ?gh, OF s1 g1] e1 p1
  have a: "\<exists>rest. fst (main [''prog'', ''tok'', ''feature'', ''blocked'', '' 12'', ''x'']
       (widget_env ''pull_request_target'') ?gh) =
      ?tr @ [Call (GetRepo (token ?c1) (repo_name ?c1)),
             Out [Lit ''Pull request number: '', FmtInt 12],
             Call (GetPull 12)] @ rest"
    by blast
  from pr_number_resolution [where gh = ?gh, OF s2 g2] e2 p2
  have b: \<open>main [''prog'', ''tok'', ''feature'', ''blocked'', ''seven'', ''x'']
       (widget_env ''pull_request_target'') ?gh =
      (?tr @ [Call (GetRepo (token ?c2) (repo_name ?c2)),
              Err [Lit ''ERROR: A valid pull request number input must be defined when '',
                   Lit ''triggering on "pull_request_target". The pull request number '',
                   Lit ''passed was "{pr_number_str}".'']],
       Inl (Exit 1))\<close>
    by blast
  from pr_number_resolution [where gh = ?gh, OF s3 g3] e3 m3
  have c: "\<exists>rest. fst (main [''prog'', ''tok'', ''feature'', ''blocked'', ''12'', ''x'']
       (widget_env ''pull_request'') ?gh) =
      ?tr @ [Call (GetRepo (token ?c3) (repo_name ?c3)),
             Out [Lit ''Pull request number: '', FmtInt (digits_value ''7'')],
             Call (GetPull (digits_value ''7''))] @ rest"
    by blast
  from pr_number_resolution [where gh = ?gh, OF s4 g4] e4 m4
  have d: \<open>main [''prog'', ''tok'', ''feature'', ''blocked'', ''12'', ''x'']
       ((widget_env ''push'')(''GITHUB_REF'' \<mapsto> ''refs/heads/main'')) ?gh =
      (?tr @ [Call (GetRepo (token ?c4) (repo_name ?c4)),
              Err [Lit ''ERROR: The pull request number could not be extracted from '',
                   Lit ''GITHUB_REF = "'', Fmt (github_ref ?c4), Lit ''"'']],
       Inl (Exit 1))\<close>
    by blast
  from a b c d show ?thesis
    by (simp add: widget_cfg_def v)
qed

text \<open>
  C6. When the pull request that was fetched has a head repository whose full name
  differs from the one of its base repository, and the event is not
  \<open>pull_request_target\<close>, the script writes an error and exits with status 1; the labels
  are not asked for.
\<close>

theorem fork_pr_exits_1:
  assumes "startup argv environ = (tr0, Inr cfg)"
    and "gh (token cfg) (repo_name cfg) = Some repo"
    and "github_event_name cfg \<noteq> ''pull_request_target''"
    and "re_search (github_ref cfg) = Some g"
    and "repo (digits_value g) = Some pr"
    and "head_full_name pr = Some h"
    and "base_full_name pr = Some b"
    and "h \<noteq> b"
  shows \<open>main argv environ gh =
     (tr0 @
      [Call (GetRepo (token cfg) (repo_name cfg)),
       Out [Lit ''Pull request number: '', FmtInt (digits_value g)],
       Call (GetPull (digits_value g)),
       Err [Lit ''ERROR: PRs from forks are only supported when trigger on '',
            Lit ''"pull_request_target"'']],
      Inl (Exit 1))\<close>
proof -
  have \<open>locate cfg gh =
     ([Call (GetRepo (token cfg) (repo_name cfg)),
       Out [Lit ''Pull request number: '', FmtInt (digits_value g)],
       Call (GetPull (digits_value g)),
       Err [Lit ''ERROR: PRs from forks are only supported when trigger on '',
            Lit ''"pull_request_target"'']],
      Inl (Exit 1))\<close>
    using assms(2,3,5,6,7,8)
    by (simp add: locate_def get_repo_def get_pull_def fork_check_def call_def ret_def
        print_def eprint_def sys_exit_def resolve_by_ref [OF assms(3,4)])
  then show ?thesis
    by (simp add: main_def assms(1))
qed

theorem fork_pr_exits_1_witness:
  \<open>main [''prog'', ''tok'', ''feature'', ''blocked'', ''0'', ''x''] (widget_env ''pull_request'')
     (widget_github (widget_pull ''fork/widget'' [''feature''])) =
     ([Out [Lit ''Valid labels are: '', FmtList [''feature'']],
       Out [Lit ''Invalid labels are: '', FmtList [''blocked'']],
       Call (GetRepo ''tok'' ''org/widget''),
       Out [Lit ''Pull request number: '', FmtInt 7],
       Call (GetPull 7),
       Err [Lit ''ERROR: PRs from forks are only supported when trigger on '',
            Lit ''"pull_request_target"'']],
      Inl (Exit 1))\<close>
proof -
  let ?cfg = "widget_cfg [''feature''] [''blocked''] ''pull_request''"
  let ?pr = "widget_pull ''fork/widget'' [''feature'']"
  have g: "widget_github ?pr (token ?cfg) (repo_name ?cfg) =
           Some (\<lambda>n. if n = 7 then Some ?pr else None)"
    by (simp add: widget_github_def widget_cfg_def)
  have e: "github_event_name ?cfg \<noteq> ''pull_request_target''"
    by (simp add: widget_defs)
  have r: "re_search (github_ref ?cfg) = Some ''7''"
    by (simp add: widget_defs match_here_def is_digit_def)
  have p: "(\<lambda>n. if n = 7 then Some ?pr else None) (digits_value ''7'') = Some ?pr"
    by (simp add: digits_value_def digit_val_def)
  have h: "head_full_name ?pr = Some ''fork/widget''"
    by (simp add: widget_defs)
  have b: "base_full_name ?pr = Some ''org/widget''"
    by (simp add: widget_defs)
  have d: "''fork/widget'' \<noteq> ''org/widget''"
    by simp
  show ?thesis
    using fork_pr_exits_1 [where gh = "widget_github ?pr", OF widget_startup g e r p h b d]
    by (simp add: widget_defs digits_value_def digit_val_def)
qed

section \<open>Reading the inputs\<close>

text \<open>
  C9. Two invocations with the same number of arguments that agree on every argument but
  the fifth (index 5 of \<open>argv\<close>) run alike, in the same environment and with the same
  answers of the API: same trace, same end.
\<close>

theorem fifth_argument_unused:
  assumes "length argv = length argv'"
    and "\<forall>i. i \<noteq> 5 \<longrightarrow> argv ! i = argv' ! i"
  shows "main argv environ gh = main argv' environ gh"
  using assms by (simp add: main_def startup_def)

theorem fifth_argument_unused_witness:
  "main [''prog'', ''tok'', ''feature'', ''blocked'', ''0'', ''x''] (widget_env ''pull_request'')
     (widget_github (widget_pull ''org/widget'' [''docs''])) =
   main [''prog'', ''tok'', ''feature'', ''blocked'', ''0'', ''something else'']
     (widget_env ''pull_request'') (widget_github (widget_pull ''org/widget'' [''docs'']))"
proof -
  have l: "length [''prog'', ''tok'', ''feature'', ''blocked'', ''0'', ''x''] =
           length [''prog'', ''tok'', ''feature'', ''blocked'', ''0'', ''something else'']"
    by simp
  have n: "\<forall>i. i \<noteq> 5 \<longrightarrow>
             [''prog'', ''tok'', ''feature'', ''blocked'', ''0'', ''x''] ! i =
             [''prog'', ''tok'', ''feature'', ''blocked'', ''0'', ''something else''] ! i"
    by (simp add: nth_Cons' )
  show ?thesis
    using fifth_argument_unused [OF l n] .
qed

text \<open>
  C8. When the number of arguments after the program name is not 5, or the token is
  empty, or one of the three environment variables is absent, the run writes lines to
  standard output only, then one line to the error stream, and exits with status 1: no
  request is sent to the API.
\<close>

theorem config_error_exits_1:
  assumes "length argv \<noteq> 6 \<or> argv ! 1 = [] \<or> environ ''GITHUB_REPOSITORY'' = None \<or>
           environ ''GITHUB_REF'' = None \<or> environ ''GITHUB_EVENT_NAME'' = None"
  shows "\<exists>outs msg. main argv environ gh = (map Out outs @ [Err msg], Inl (Exit 1))"
proof -
  have "\<exists>outs msg. startup argv environ = (map Out outs @ [Err msg], Inl (Exit 1))"
  proof (cases "length argv \<noteq> 6")
    case True
    then have "startup argv environ =
        (map Out [] @ [Err [Lit ''ERROR: Invalid number of arguments!'']], Inl (Exit 1))"
      by (simp add: startup_def eprint_def sys_exit_def)
    then show ?thesis by blast
  next
    case len: False
    show ?thesis
    proof (cases "argv ! 1 = []")
      case True
      with len have "startup argv environ =
          (map Out [] @ [Err [Lit ''ERROR: A token must be provided!'']], Inl (Exit 1))"
        by (simp add: startup_def read_inputs_def eprint_def sys_exit_def)
      then show ?thesis by blast
    next
      case tok: False
      let ?o = "[[Lit ''Valid labels are: '', FmtList (map strip (split_on CHR '','' (argv ! 2)))],
                 [Lit ''Invalid labels are: '', FmtList (map strip (split_on CHR '','' (argv ! 3)))]]"
      from assms len tok
      have "environ ''GITHUB_REPOSITORY'' = None \<or> environ ''GITHUB_REF'' = None \<or>
            environ ''GITHUB_EVENT_NAME'' = None"
        by simp
      with len tok have "\<exists>msg. startup argv environ = (map Out ?o @ [Err msg], Inl (Exit 1))"
        by (auto simp: startup_def read_inputs_def get_env_var_def eprint_def print_def
            sys_exit_def ret_def split: option.splits)
      then show ?thesis by blast
    qed
  qed
  then show ?thesis
    by (auto simp: main_def)
qed

theorem config_error_exits_1_witness:
  "main [''prog'', ''tok'', ''feature'', ''blocked'', ''0'', ''x'']
     [''GITHUB_REPOSITORY'' \<mapsto> ''org/widget'', ''GITHUB_EVENT_NAME'' \<mapsto> ''pull_request'']
     (widget_github (widget_pull ''org/widget'' [''feature''])) =
     ([Out [Lit ''Valid labels are: '', FmtList [''feature'']],
       Out [Lit ''Invalid labels are: '', FmtList [''blocked'']],
       Err [Lit ''ERROR: The environmental variable '', Fmt ''GITHUB_REF'', Lit '' is empty!'']],
      Inl (Exit 1))"
proof -
  let ?argv = "[''prog'', ''tok'', ''feature'', ''blocked'', ''0'', ''x'']"
  let ?env = "[''GITHUB_REPOSITORY'' \<mapsto> ''org/widget'', ''GITHUB_EVENT_NAME'' \<mapsto> ''pull_request'']"
  have h: "length ?argv \<noteq> 6 \<or> ?argv ! 1 = [] \<or> ?env ''GITHUB_REPOSITORY'' = None \<or>
           ?env ''GITHUB_REF'' = None \<or> ?env ''GITHUB_EVENT_NAME'' = None"
    by simp
  from config_error_exits_1 [OF h, of "widget_github (widget_pull ''org/widget'' [''feature''])"]
  obtain outs msg where
    "main ?argv ?env (widget_github (widget_pull ''org/widget'' [''feature''])) =
       (map Out outs @ [Err msg], Inl (Exit 1))"
    by blast
  moreover have "startup ?argv ?env =
     ([Out [Lit ''Valid labels are: '', FmtList [''feature'']],
       Out [Lit ''Invalid labels are: '', FmtList [''blocked'']],
       Err [Lit ''ERROR: The environmental variable '', Fmt ''GITHUB_REF'', Lit '' is empty!'']],
      Inl (Exit 1))"
    by (simp add: script_defs)
  ultimately show ?thesis
    by (simp add: main_def)
qed

lemma env_error_startup:
  "env_error name \<in> set (fst (startup argv environ)) \<Longrightarrow> environ name = None"
  by (auto simp: env_error_def startup_def read_inputs_def get_env_var_def eprint_def
      print_def sys_exit_def ret_def split: if_splits option.splits)

lemma env_error_fork_check: "env_error name \<notin> set (fst (fork_check pr e))"
  by (cases "head_full_name pr"; cases "base_full_name pr")
     (auto simp: env_error_def fork_check_def raise_def ret_def eprint_def sys_exit_def)

lemma env_error_resolve: "env_error name \<notin> set (fst (resolve_pr_number e h r))"
  by (auto simp: env_error_def resolve_pr_number_def raise_def ret_def eprint_def
      sys_exit_def split: option.splits)

lemma env_error_locate: "env_error name \<notin> set (fst (locate cfg gh))"
  using env_error_resolve [unfolded env_error_def] env_error_fork_check [unfolded env_error_def]
  by (auto simp: env_error_def locate_def get_repo_def get_pull_def fst_and_then
      snd_and_then call_def print_def raise_def ret_def split: sum.splits option.splits)

lemma env_error_evaluate: "env_error name \<notin> set (fst (evaluate valid repo pv pi))"
proof (cases "pi = []")
  case True
  then show ?thesis
    by (cases "pv = []")
       (simp_all add: evaluate_none_valid evaluate_some_valid env_error_def)
next
  case False
  then show ?thesis by (simp add: evaluate_invalid env_error_def)
qed

lemma env_error_check_labels: "env_error name \<notin> set (fst (check_labels cfg pr))"
proof (cases "label_names pr")
  case None
  then show ?thesis
    by (simp add: check_labels_def get_labels_def call_def raise_def env_error_def)
next
  case (Some names)
  then show ?thesis
    using env_error_evaluate [of name]
    by (simp add: check_labels_fetched) (simp add: env_error_def)
qed

lemma env_error_main:
  "env_error name \<in> set (fst (main argv environ gh)) \<Longrightarrow> environ name = None"
  using env_error_startup [of name argv environ] env_error_locate [of name]
    env_error_check_labels [of name]
  by (auto simp: main_def fst_and_then snd_and_then split: sum.splits)

text \<open>
  C10. With the right number of arguments and a token: when the three environment
  variables have values, whatever they are (the empty string too), the run goes on to ask
  the API for the repository of that name; and the error line of \<open>get_env_var\<close> for
  a variable is written only when the lookup of that variable gives nothing.
\<close>

theorem empty_env_value_accepted:
  assumes "length argv = 6" and "argv ! 1 \<noteq> []"
  shows "(\<forall>r g e.
            environ ''GITHUB_REPOSITORY'' = Some r \<and> environ ''GITHUB_REF'' = Some g \<and>
            environ ''GITHUB_EVENT_NAME'' = Some e \<longrightarrow>
            (\<exists>rest. fst (main argv environ gh) =
               [Out [Lit ''Valid labels are: '',
                     FmtList (map strip (split_on CHR '','' (argv ! 2)))],
                Out [Lit ''Invalid labels are: '',
                     FmtList (map strip (split_on CHR '','' (argv ! 3)))],
                Call (GetRepo (argv ! 1) r)] @ rest)) \<and>
         (\<forall>name.
            Err [Lit ''ERROR: The environmental variable '', Fmt name, Lit '' is empty!'']
              \<in> set (fst (main argv environ gh)) \<longrightarrow>
            environ name = None)"
proof (intro conjI allI impI)
  fix r g e
  assume "environ ''GITHUB_REPOSITORY'' = Some r \<and> environ ''GITHUB_REF'' = Some g \<and>
          environ ''GITHUB_EVENT_NAME'' = Some e"
  with assms show "\<exists>rest. fst (main argv environ gh) =
     [Out [Lit ''Valid labels are: '', FmtList (map strip (split_on CHR '','' (argv ! 2)))],
      Out [Lit ''Invalid labels are: '', FmtList (map strip (split_on CHR '','' (argv ! 3)))],
      Call (GetRepo (argv ! 1) r)] @ rest"
    by (simp add: main_def startup_def read_inputs_def get_env_var_def print_def ret_def
        locate_def get_repo_def call_def fst_and_then)
next
  fix name
  assume "Err [Lit ''ERROR: The environmental variable '', Fmt name, Lit '' is empty!'']
            \<in> set (fst (main argv environ gh))"
  then show "environ name = None"
    using env_error_main [of name argv environ gh] by (simp add: env_error_def)
qed

theorem empty_env_value_accepted_witness:
  "\<exists>rest. fst (main [''prog'', ''tok'', ''feature'', ''blocked'', ''0'', ''x'']
      [''GITHUB_REPOSITORY'' \<mapsto> '''', ''GITHUB_REF'' \<mapsto> '''', ''GITHUB_EVENT_NAME'' \<mapsto> '''']
      (widget_github (widget_pull ''org/widget'' [''feature'']))) =
     [Out [Lit ''Valid labels are: '', FmtList [''feature'']],
      Out [Lit ''Invalid labels are: '', FmtList [''blocked'']],
      Call (GetRepo ''tok'' '''')] @ rest"
proof -
  let ?argv = "[''prog'', ''tok'', ''feature'', ''blocked'', ''0'', ''x'']"
  let ?env = "[''GITHUB_REPOSITORY'' \<mapsto> '''', ''GITHUB_REF'' \<mapsto> '''',
               ''GITHUB_EVENT_NAME'' \<mapsto> '''']"
  have l: "length ?argv = 6" by simp
  have t: "?argv ! 1 \<noteq> []" by simp
  have e: "?env ''GITHUB_REPOSITORY'' = Some '''' \<and> ?env ''GITHUB_REF'' = Some '''' \<and>
           ?env ''GITHUB_EVENT_NAME'' = Some ''''"
    by simp
  from empty_env_value_accepted [OF l t, of ?env "widget_github (widget_pull ''org/widget'' [''feature''])"] e
  have "\<exists>rest. fst (main ?argv ?env (widget_github (widget_pull ''org/widget'' [''feature'']))) =
     [Out [Lit ''Valid labels are: '', FmtList (map strip (split_on CHR '','' (?argv ! 2)))],
      Out [Lit ''Invalid labels are: '', FmtList (map strip (split_on CHR '','' (?argv ! 3)))],
      Call (GetRepo (?argv ! 1) '''')] @ rest"
    by blast
  then show ?thesis
    by (simp add: strip_def is_space_def)
qed

end
